theory Spec2Isabelle
  imports Main "HOL-Library.Word" "HOL-Library.Sublist"
begin

section \<open>The mail walker of package i18nmail (walk.go)\<close>

text \<open>
  Go strings are byte sequences: a \<^typ>\<open>string\<close> here is a list of 8-bit characters.
  Go's \<open>uint64\<close> and (on a 64-bit platform) \<open>int\<close> are 64-bit words.
\<close>

type_synonym uint64 = "64 word"
type_synonym go_int = "64 word"

subsection \<open>The global sequence\<close>

text \<open>
  \<open>var sequence uint64\<close>; \<open>nextSeq\<close> is \<open>atomic.AddUint64(&sequence, 1)\<close>, one
  indivisible step on the counter that returns the new value. The functions take the
  counter and return the result together with the updated counter.
\<close>

definition nextSeq :: "uint64 \<Rightarrow> uint64 \<times> uint64" where
  "nextSeq sequence = (sequence + 1, sequence + 1)"

definition nextSeqInt :: "uint64 \<Rightarrow> go_int \<times> uint64" where
  "nextSeqInt sequence = (case nextSeq sequence of (v, sequence') \<Rightarrow> (v mod 2 ^ 31, sequence'))"

text \<open>\<open>issue n\<close>: the sequence numbers handed out by \<open>n\<close> successive calls of \<open>nextSeqInt\<close>,
  oldest first, whoever makes the calls.\<close>

fun issue :: "nat \<Rightarrow> uint64 \<Rightarrow> go_int list \<times> uint64" where
  "issue 0 sequence = ([], sequence)"
| "issue (Suc n) sequence =
     (case nextSeqInt sequence of (v, sequence') \<Rightarrow>
        (case issue n sequence' of (vs, sequence'') \<Rightarrow> (v # vs, sequence'')))"

subsection \<open>The filename sanitizer\<close>

text \<open>\<open>strings.Replace(s, old, new, -1)\<close>: every non-overlapping occurrence of \<open>old\<close>, leftmost
  first. With an empty \<open>old\<close> Go inserts \<open>new\<close> before every character and at the end.\<close>

function Replace :: "string \<Rightarrow> string \<Rightarrow> string \<Rightarrow> string" where
  "Replace s old new =
     (if old = [] then new @ concat (map (\<lambda>c. c # new) s)
      else if s = [] then []
      else if prefix old s then new @ Replace (drop (length old) s) old new
      else hd s # Replace (tl s) old new)"
  by pat_completeness auto
termination
  by (relation "measure (\<lambda>(s, old, new). length s)") auto

text \<open>\<open>net/url\<close>: \<open>shouldEscape(c, encodeQueryComponent)\<close> keeps only the unreserved characters
  (letters, digits and \<open>- _ . ~\<close>); \<open>QueryEscape\<close> writes a space as \<open>+\<close> and every other escaped
  byte as \<open>%\<close> and two upper-case hex digits.\<close>

definition isAlnum :: "char \<Rightarrow> bool" where
  "isAlnum c = (let n = (of_char c :: nat) in
     (97 \<le> n \<and> n \<le> 122) \<or> (65 \<le> n \<and> n \<le> 90) \<or> (48 \<le> n \<and> n \<le> 57))"

definition shouldEscape :: "char \<Rightarrow> bool" where
  "shouldEscape c =
     (if isAlnum c then False
      else if c = CHR ''-'' \<or> c = CHR ''_'' \<or> c = CHR ''.'' \<or> c = CHR ''~'' then False
      else True)"

definition upperhex :: string where
  "upperhex = ''0123456789ABCDEF''"

definition escape_byte :: "char \<Rightarrow> string" where
  "escape_byte c =
     (if c = CHR '' '' then ''+''
      else if shouldEscape c
        then [CHR ''%'', upperhex ! ((of_char c :: nat) div 16), upperhex ! ((of_char c :: nat) mod 16)]
      else [c])"

definition QueryEscape :: "string \<Rightarrow> string" where
  "QueryEscape s = concat (map escape_byte s)"

definition safeFn :: "string \<Rightarrow> bool \<Rightarrow> string" where
  "safeFn fn maskPercent =
     (let fn1 = QueryEscape (Replace (Replace fn ''/'' ''-'') [CHR 0x5C] ''-'')
      in if maskPercent then Replace fn1 ''%'' ''!P!'' else fn1)"

text \<open>The sanitizer as the specification words it, one input character at a time: a path
  separator becomes \<open>-\<close>; any other character is percent-encoded, and the \<open>%\<close> the encoding
  introduces is written \<open>!P!\<close>.\<close>

definition sanitize_char :: "char \<Rightarrow> string" where
  "sanitize_char c =
     (if c = CHR ''/'' \<or> c = CHR 0x5C then ''-''
      else if c = CHR '' '' then ''+''
      else if shouldEscape c
        then ''!P!'' @ [upperhex ! ((of_char c :: nat) div 16), upperhex ! ((of_char c :: nat) mod 16)]
      else [c])"

text \<open>What the last \<open>Replace\<close> of \<open>safeFn\<close> does to an escaped string, character by character.\<close>

definition mask_percent :: "string \<Rightarrow> string" where
  "mask_percent s = concat (map (\<lambda>x. if x = CHR ''%'' then ''!P!'' else [x]) s)"

subsection \<open>Errors\<close>

text \<open>
  A Go \<open>error\<close> value; \<open>nil\<close> is \<open>None\<close> of \<open>error option\<close>. \<open>fmt.Errorf("...: %w", ..., err)\<close>
  wraps \<open>err\<close>: the wrapper keeps the arguments of the format instead of the printed text
  (\<open>todo(%q): %w\<close> the file name, \<open>part %s: %w\<close> the parent's sequence number, \<open>-1\<close> without a
  parent, and the content type of the part). A run-time panic (a nil dereference) is the
  value \<open>ErrPanic\<close>.
\<close>

datatype wrap_ctx = TodoCtx string | PartCtx go_int string

datatype error = ErrStopWalk | ErrOther string | ErrWrapped wrap_ctx error | ErrPanic

subsection \<open>Headers of the message parser\<close>

text \<open>
  The parser library (go-message) is outside the repository. Its header is an ordered list
  of fields, here from the top of the header down; a field has its key, its value and its
  raw line (empty for a field made by \<open>Add\<close> or \<open>Set\<close>). The library stores a field under
  its canonical key and looks a key up by its canonical form. \<open>Add\<close> puts the new field on top,
  \<open>Set\<close> deletes the fields of the key and adds one.
\<close>

record headerField =
  fKey :: string
  fValue :: string
  fRaw :: string

type_synonym header = "headerField list"

text \<open>\<open>textproto.CanonicalMIMEHeaderKey\<close>: a key made of header token bytes only gets an upper-case
  letter first and after every \<open>-\<close> and lower-case letters elsewhere; any other key is unchanged.\<close>

definition lowers :: string where "lowers = ''abcdefghijklmnopqrstuvwxyz''"
definition uppers :: string where "uppers = ''ABCDEFGHIJKLMNOPQRSTUVWXYZ''"

definition toUpper :: "char \<Rightarrow> char" where
  "toUpper c = (case map_of (zip lowers uppers) c of Some u \<Rightarrow> u | None \<Rightarrow> c)"

definition toLower :: "char \<Rightarrow> char" where
  "toLower c = (case map_of (zip uppers lowers) c of Some l \<Rightarrow> l | None \<Rightarrow> c)"

definition validHeaderFieldByte :: "char \<Rightarrow> bool" where
  "validHeaderFieldByte c =
     (isAlnum c \<or> c \<in> set ''!#$%&*+-.^_|~'' \<or> c = CHR 0x27 \<or> c = CHR 0x60)"

fun canonical_loop :: "bool \<Rightarrow> string \<Rightarrow> string" where
  "canonical_loop upper [] = []"
| "canonical_loop upper (c # cs) =
     (let c' = (if upper \<and> c \<in> set lowers then toUpper c
                else if \<not> upper \<and> c \<in> set uppers then toLower c
                else c)
      in c' # canonical_loop (c' = CHR ''-'') cs)"

definition CanonicalMIMEHeaderKey :: "string \<Rightarrow> string" where
  "CanonicalMIMEHeaderKey s = (if list_all validHeaderFieldByte s then canonical_loop True s else s)"

definition Header_Has :: "header \<Rightarrow> string \<Rightarrow> bool" where
  "Header_Has h k = list_ex (\<lambda>f. fKey f = CanonicalMIMEHeaderKey k) h"

definition Header_Get :: "header \<Rightarrow> string \<Rightarrow> string" where
  "Header_Get h k =
     (case filter (\<lambda>f. fKey f = CanonicalMIMEHeaderKey k) h of
        [] \<Rightarrow> [] | f # _ \<Rightarrow> fValue f)"

definition Header_Del :: "header \<Rightarrow> string \<Rightarrow> header" where
  "Header_Del h k = filter (\<lambda>f. fKey f \<noteq> CanonicalMIMEHeaderKey k) h"

definition Header_Add :: "header \<Rightarrow> string \<Rightarrow> string \<Rightarrow> header" where
  "Header_Add h k v = \<lparr>fKey = CanonicalMIMEHeaderKey k, fValue = v, fRaw = []\<rparr> # h"

definition Header_Set :: "header \<Rightarrow> string \<Rightarrow> string \<Rightarrow> header" where
  "Header_Set h k v = Header_Add (Header_Del h k) k v"

definition HashKeyName :: string where
  "HashKeyName = ''X-HashOfFullMessage''"

text \<open>
  What the walker takes from outside the repository, as parameters: the parser's accessors
  \<open>Header.ContentType()\<close> and \<open>Header.ContentDisposition()\<close> (media type, parameters, error),
  the decoding of a field's text (\<open>None\<close> when it fails), \<open>mime.ExtensionsByType\<close>, and the
  SHA-512/224 digest of a byte sequence.
\<close>

type_synonym byte = "8 word"

record extern =
  Header_ContentType :: "header \<Rightarrow> string \<times> (string \<rightharpoonup> string) \<times> error option"
  Header_ContentDisposition :: "header \<Rightarrow> string \<times> (string \<rightharpoonup> string) \<times> error option"
  decodeHeader :: "string \<Rightarrow> string option"
  ExtensionsByType :: "string \<Rightarrow> string list"
  sha512_224 :: "byte list \<Rightarrow> byte list"

text \<open>Reading a Go map of strings: a missing key reads as the empty string.\<close>

definition param :: "(string \<rightharpoonup> string) \<Rightarrow> string \<Rightarrow> string" where
  "param m k = (case m k of None \<Rightarrow> [] | Some v \<Rightarrow> v)"

subsection \<open>Header projection\<close>

text \<open>\<open>textproto.MIMEHeader\<close> is \<open>map[string][]string\<close>. The loop of \<open>headersAsMap\<close> runs over the
  fields from the top; \<open>m[k] = append(m[k], s)\<close>.\<close>

definition field_text :: "(string \<Rightarrow> string option) \<Rightarrow> headerField \<Rightarrow> string" where
  "field_text dec f = (case dec (fValue f) of Some s \<Rightarrow> s | None \<Rightarrow> fRaw f)"

definition headersAsMap :: "(string \<Rightarrow> string option) \<Rightarrow> header \<Rightarrow> (string \<rightharpoonup> string list)" where
  "headersAsMap dec headers =
     foldl (\<lambda>m f. let k = CanonicalMIMEHeaderKey (fKey f); s = field_text dec f
                   in m(k \<mapsto> (case m k of None \<Rightarrow> [] | Some vs \<Rightarrow> vs) @ [s]))
       Map.empty headers"

text \<open>\<open>MIMEHeader.Add\<close>, used for \<open>X-FileName\<close>.\<close>

definition MIMEHeader_Add :: "(string \<rightharpoonup> string list) \<Rightarrow> string \<Rightarrow> string \<Rightarrow> (string \<rightharpoonup> string list)" where
  "MIMEHeader_Add m key v =
     (let k = CanonicalMIMEHeaderKey key in m(k \<mapsto> (case m k of None \<Rightarrow> [] | Some vs \<Rightarrow> vs) @ [v]))"

subsection \<open>Hashing\<close>

text \<open>
  A \<open>hash.Hash\<close> is modelled by its contract: \<open>Write\<close> appends to the message absorbed so far,
  \<open>Sum(b)\<close> appends the digest of that message to \<open>b\<close>. \<open>base64.URLEncoding\<close> is the URL-safe
  alphabet with the padding character \<open>=\<close>; \<open>val>>18&0x3F\<close> is written \<open>val div 2^18 mod 64\<close>.
\<close>

record hashState =
  absorbed :: "byte list"

definition New512_224 :: hashState where
  "New512_224 = \<lparr>absorbed = []\<rparr>"

definition hash_Write :: "hashState \<Rightarrow> byte list \<Rightarrow> hashState" where
  "hash_Write h p = h\<lparr>absorbed := absorbed h @ p\<rparr>"

definition hash_Sum :: "(byte list \<Rightarrow> byte list) \<Rightarrow> hashState \<Rightarrow> byte list \<Rightarrow> byte list" where
  "hash_Sum digest h b = b @ digest (absorbed h)"

definition encodeURL :: string where
  "encodeURL = ''ABCDEFGHIJKLMNOPQRSTUVWXYZabcdefghijklmnopqrstuvwxyz0123456789-_''"

fun EncodeToString :: "byte list \<Rightarrow> string" where
  "EncodeToString (a # b # c # rest) =
     (let v = unat a * 65536 + unat b * 256 + unat c
      in [encodeURL ! (v div 262144 mod 64), encodeURL ! (v div 4096 mod 64),
          encodeURL ! (v div 64 mod 64), encodeURL ! (v mod 64)] @ EncodeToString rest)"
| "EncodeToString [a, b] =
     (let v = unat a * 65536 + unat b * 256
      in [encodeURL ! (v div 262144 mod 64), encodeURL ! (v div 4096 mod 64),
          encodeURL ! (v div 64 mod 64), CHR ''=''])"
| "EncodeToString [a] =
     (let v = unat a * 65536
      in [encodeURL ! (v div 262144 mod 64), encodeURL ! (v div 4096 mod 64), CHR ''='', CHR ''=''])"
| "EncodeToString [] = []"

definition HashBytes :: "(byte list \<Rightarrow> byte list) \<Rightarrow> byte list \<Rightarrow> string" where
  "HashBytes digest data = EncodeToString (hash_Sum digest (hash_Write New512_224 data) [])"

text \<open>The SHA-512/224 digest of the empty message (\<open>6ed0dd02 ... 333b84f4\<close>), for examples.\<close>

definition sha512_224_empty :: "byte list" where
  "sha512_224_empty = [110, 208, 221, 2, 128, 111, 168, 158, 37, 222, 6, 12, 25, 211, 172, 134,
     202, 187, 135, 214, 160, 221, 208, 92, 51, 59, 132, 244]"

subsection \<open>Section readers and the store\<close>

text \<open>
  \<open>*io.SectionReader\<close> values are shared through pointers (\<open>MailPart.body\<close>, the reader that
  \<open>GetBody\<close> returns, \<open>entity.Body\<close>), so they live in a store: a list of readers, a pointer
  being an index. A reader reads from an \<open>io.ReaderAt\<close>: an immutable byte region (in memory or
  in temporary storage) or another section reader. \<open>ReadAt\<close> changes nothing; \<open>Read\<close> advances
  the \<open>off\<close> of the reader it is called on. Both return the bytes read (the \<open>io.EOF\<close> that may
  come with them is left out); \<open>None\<close> is a nil or dangling pointer, or a chain of readers
  that never reaches a byte region.
\<close>

type_synonym addr = nat

datatype storage = InMemory | TempStorage

datatype readerAt =
    is_Backing: Backing (kind: storage) (bytes: "byte list")
  | is_SectionAt: SectionAt (target: addr)

record SectionReader =
  sr_r :: readerAt
  sr_base :: int
  sr_off :: int
  sr_limit :: int

type_synonym store = "SectionReader list"

definition maxint64 :: int where
  "maxint64 = 2 ^ 63 - 1"

definition NewSectionReader :: "store \<Rightarrow> readerAt \<Rightarrow> int \<Rightarrow> int \<Rightarrow> addr \<times> store" where
  "NewSectionReader h r off n =
     (let remaining = (if off \<le> maxint64 - n then n + off else maxint64)
      in (length h, h @ [\<lparr>sr_r = r, sr_base = off, sr_off = off, sr_limit = remaining\<rparr>]))"

definition sr_Size :: "SectionReader \<Rightarrow> int" where
  "sr_Size s = sr_limit s - sr_base s"

text \<open>\<open>p = p[0:max]\<close> when \<open>len(p) > max\<close>.\<close>

definition clip :: "nat \<Rightarrow> int \<Rightarrow> nat" where
  "clip n mx = (if int n > mx then nat mx else n)"

definition bytes_ReadAt :: "byte list \<Rightarrow> int \<Rightarrow> nat \<Rightarrow> byte list" where
  "bytes_ReadAt bs off n = (if off < 0 then [] else take n (drop (nat off) bs))"

partial_function (option) sr_ReadAt :: "store \<Rightarrow> addr \<Rightarrow> int \<Rightarrow> nat \<Rightarrow> byte list option" where
  "sr_ReadAt h a off n =
     (if a < length h then
        (if off < 0 \<or> off \<ge> sr_Size (h ! a) then Some []
         else if is_SectionAt (sr_r (h ! a))
           then sr_ReadAt h (target (sr_r (h ! a))) (off + sr_base (h ! a))
                  (clip n (sr_limit (h ! a) - (off + sr_base (h ! a))))
           else Some (bytes_ReadAt (bytes (sr_r (h ! a))) (off + sr_base (h ! a))
                  (clip n (sr_limit (h ! a) - (off + sr_base (h ! a))))))
      else None)"

declare sr_ReadAt.simps [code]

definition ReaderAt_ReadAt :: "store \<Rightarrow> readerAt \<Rightarrow> int \<Rightarrow> nat \<Rightarrow> byte list option" where
  "ReaderAt_ReadAt h r off n =
     (case r of Backing k bs \<Rightarrow> Some (bytes_ReadAt bs off n) | SectionAt b \<Rightarrow> sr_ReadAt h b off n)"

definition sr_Read :: "store \<Rightarrow> addr \<Rightarrow> nat \<Rightarrow> (byte list \<times> store) option" where
  "sr_Read h a n =
     (if a < length h then
        (let s = h ! a in
         if sr_off s \<ge> sr_limit s then Some ([], h)
         else (case ReaderAt_ReadAt h (sr_r s) (sr_off s) (clip n (sr_limit s - sr_off s)) of
                 None \<Rightarrow> None
               | Some bs \<Rightarrow> Some (bs, h[a := s\<lparr>sr_off := sr_off s + int (length bs)\<rparr>])))
      else None)"

text \<open>
  An \<open>io.Reader\<close> holding a body: a stream that delivers its chunks and then ends with
  \<open>io.EOF\<close> (\<open>None\<close>) or with an error, or a section reader of the store. \<open>drain\<close> reads it to
  the end: the chunks read, how the reading ended, the reader afterwards and the store
  afterwards (what is left of a section reader comes as one chunk).
\<close>

datatype bodyReader = Stream (chunks: "byte list list") (failure: "error option") | SectionBody addr

definition drain :: "store \<Rightarrow> bodyReader \<Rightarrow> (byte list list \<times> error option \<times> bodyReader \<times> store) option" where
  "drain h r =
     (case r of
        Stream cs e \<Rightarrow> Some (cs, e, Stream [] e, h)
      | SectionBody a \<Rightarrow>
          (if a < length h then
             (case sr_Read h a (nat (sr_limit (h ! a) - sr_off (h ! a))) of
                None \<Rightarrow> None
              | Some (bs, h') \<Rightarrow> Some ([bs], None, SectionBody a, h'))
           else None))"

definition bodyThreshold :: nat where
  "bodyThreshold = 2 ^ 20"

definition MaxWalkDepth :: go_int where
  "MaxWalkDepth = 32"

text \<open>
  Modelled from the spec: \<open>iohlp.MakeSectionReader\<close> is code of the repository that is not among
  the sources. Section 4.1: it reads the source to completion; up to \<open>threshold\<close> bytes the buffer
  is a memory region, beyond it temporary storage; any I/O error while draining the source or
  creating the temporary storage is returned and no partial buffer is; the result is a reader
  over all the bytes. The source comes drained (its chunks and how it ended); \<open>tempErr\<close> says
  whether creating temporary storage fails.
\<close>

definition MakeSectionReader ::
  "byte list list \<Rightarrow> error option \<Rightarrow> nat \<Rightarrow> error option \<Rightarrow> store \<Rightarrow> (error + addr) \<times> store" where
  "MakeSectionReader cs rerr threshold tempErr h =
     (case rerr of
        Some e \<Rightarrow> (Inl e, h)
      | None \<Rightarrow>
          (if length (concat cs) \<le> threshold
           then (case NewSectionReader h (Backing InMemory (concat cs)) 0 (int (length (concat cs))) of
                   (b, h') \<Rightarrow> (Inr b, h'))
           else (case tempErr of
                   Some e \<Rightarrow> (Inl e, h)
                 | None \<Rightarrow>
                     (case NewSectionReader h (Backing TempStorage (concat cs)) 0 (int (length (concat cs))) of
                        (b, h') \<Rightarrow> (Inr b, h')))))"

subsection \<open>Entities and mail parts\<close>

text \<open>
  A \<open>*message.Entity\<close> of the parser: header, body reader, the media type the library
  computed from the header when it made the entity (\<open>message.New\<close>; it decides whether the
  library looks for parts) and, for a multipart entity, the parts its multipart reader
  yields, each with the error \<open>NextPart\<close> reports with it.
\<close>

datatype entity = Entity
  (eHeader: header)
  (eBody: bodyReader)
  (eMediaType: string)
  (eParts: "(error option \<times> entity) list")

definition message_New :: "extern \<Rightarrow> header \<Rightarrow> bodyReader \<Rightarrow> (error option \<times> entity) list \<Rightarrow> entity" where
  "message_New X hdr bd ps = Entity hdr bd (fst (Header_ContentType X hdr)) ps"

datatype MailPart = MailPart
  (entity: "entity option")
  (body: "addr option")
  (Header: "string \<rightharpoonup> string list")
  (MediaType: "string \<rightharpoonup> string")
  (Parent: "MailPart option")
  (ContentType: string)
  (Level: go_int)
  (Seq: go_int)

text \<open>\<open>var mp MailPart\<close>: every field zero.\<close>

definition zeroMailPart :: MailPart where
  "zeroMailPart = MailPart None None Map.empty Map.empty None [] 0 0"

definition set_entity :: "MailPart \<Rightarrow> entity \<Rightarrow> MailPart" where
  "set_entity mp e =
     MailPart (Some e) (body mp) (Header mp) (MediaType mp) (Parent mp) (ContentType mp) (Level mp) (Seq mp)"

definition set_type :: "MailPart \<Rightarrow> string \<Rightarrow> (string \<rightharpoonup> string) \<Rightarrow> MailPart" where
  "set_type mp ct params =
     MailPart (entity mp) (body mp) (Header mp) params (Parent mp) ct (Level mp) (Seq mp)"

definition set_body :: "MailPart \<Rightarrow> addr \<Rightarrow> MailPart" where
  "set_body mp b =
     MailPart (entity mp) (Some b) (Header mp) (MediaType mp) (Parent mp) (ContentType mp) (Level mp) (Seq mp)"

definition set_Header :: "MailPart \<Rightarrow> (string \<rightharpoonup> string list) \<Rightarrow> MailPart" where
  "set_Header mp m =
     MailPart (entity mp) (body mp) m (MediaType mp) (Parent mp) (ContentType mp) (Level mp) (Seq mp)"

definition Spawn :: "MailPart \<Rightarrow> uint64 \<Rightarrow> MailPart \<times> uint64" where
  "Spawn mp sequence =
     (case nextSeqInt sequence of
        (v, sequence') \<Rightarrow> (MailPart None None Map.empty Map.empty (Some mp) [] (Level mp + 1) v, sequence'))"

definition GetBody :: "MailPart \<Rightarrow> store \<Rightarrow> (addr \<times> store) option" where
  "GetBody mp h =
     (case body mp of
        None \<Rightarrow> None
      | Some b \<Rightarrow> if b < length h then Some (NewSectionReader h (SectionAt b) 0 (sr_Size (h ! b))) else None)"

text \<open>
  The state a walk runs in: the global \<open>sequence\<close>, the store of section readers, whether
  temporary storage can be created, the state of the caller's callback, and the record of
  the callback's invocations so far (the path of the entity the invocation was made for,
  and the part passed). The callback is a function of its own state and the part.
\<close>

record 'c world =
  sequence :: uint64
  readers :: store
  tempStorage :: "error option"
  cb :: 'c
  calls :: "(nat list \<times> MailPart) list"

type_synonym 'c TodoFunc = "MailPart \<Rightarrow> 'c \<Rightarrow> error option \<times> 'c"

text \<open>The parent's \<open>Seq\<close> that \<open>String()\<close> prints: \<open>-1\<close> without a parent.\<close>

definition pseq :: "MailPart \<Rightarrow> go_int" where
  "pseq mp = (case Parent mp of None \<Rightarrow> - 1 | Some p \<Rightarrow> Seq p)"

definition WithEntity :: "extern \<Rightarrow> MailPart \<Rightarrow> entity \<Rightarrow> 'c world \<Rightarrow> (MailPart \<times> error option) \<times> 'c world" where
  "WithEntity X mp e w =
     (let mp1 = set_entity mp e in
      case Header_ContentType X (eHeader e) of (ct0, params, err) \<Rightarrow>
        (case err of
           Some er \<Rightarrow> ((mp1, Some er), w)
         | None \<Rightarrow>
             (let ct = (if ct0 = [] then ''message/rfc822'' else ct0);
                  mp2 = set_type mp1 ct params
              in case drain (readers w) (eBody e) of
                   None \<Rightarrow> ((mp2, Some ErrPanic), w)
                 | Some (cs, rerr, rd, h1) \<Rightarrow>
                     (let hsh = foldl hash_Write New512_224 cs;
                          e1 = Entity (eHeader e) rd (eMediaType e) (eParts e)
                      in case MakeSectionReader cs rerr bodyThreshold (tempStorage w) h1 of
                           (Inl er, h2) \<Rightarrow>
                             ((set_entity mp2 e1, Some (ErrWrapped (PartCtx (pseq mp2) ct) er)),
                              w\<lparr>readers := h2\<rparr>)
                         | (Inr b, h2) \<Rightarrow>
                             (case NewSectionReader h2 (SectionAt b) 0 (sr_Size (h2 ! b)) of (a, h3) \<Rightarrow>
                                (let hdr = (if \<not> Header_Has (eHeader e) HashKeyName
                                            then Header_Set (eHeader e) HashKeyName
                                                   (EncodeToString (hash_Sum (sha512_224 X) hsh []))
                                            else eHeader e);
                                     e2 = Entity hdr (SectionBody a) (eMediaType e) (eParts e);
                                     mp3 = set_Header (set_entity (set_body mp2 b) e2)
                                             (headersAsMap (decodeHeader X) hdr)
                                 in ((mp3, None), w\<lparr>readers := h3\<rparr>)))))))"

definition FileName :: "extern \<Rightarrow> MailPart \<Rightarrow> string option" where
  "FileName X mp =
     (case entity mp of
        None \<Rightarrow> None
      | Some e \<Rightarrow> (case Header_ContentDisposition X (eHeader e) of (d, params, err) \<Rightarrow>
                     Some (param params ''filename'')))"

text \<open>\<open>%d\<close> of an \<open>int\<close>.\<close>

fun digits :: "nat \<Rightarrow> string" where
  "digits n = (if n < 10 then [''0123456789'' ! n] else digits (n div 10) @ [''0123456789'' ! (n mod 10)])"

definition itoa :: "go_int \<Rightarrow> string" where
  "itoa i = (if sint i < 0 then ''-'' @ digits (nat (- sint i)) else digits (nat (sint i)))"

text \<open>
  The parser's \<open>Entity.Walk\<close>: it calls \<open>walkFunc\<close> for the entity, stops with the error if
  \<open>walkFunc\<close> returns one, and otherwise walks the parts of a multipart entity in order,
  part \<open>i\<close> under the path extended by \<open>i\<close>. The root has the nil path, \<open>[]\<close>.
\<close>

fun entity_Walk ::
  "(nat list \<Rightarrow> entity \<Rightarrow> error option \<Rightarrow> 's \<Rightarrow> error option \<times> 's)
    \<Rightarrow> nat list \<Rightarrow> entity \<Rightarrow> error option \<Rightarrow> 's \<Rightarrow> error option \<times> 's"
and parts_Walk ::
  "(nat list \<Rightarrow> entity \<Rightarrow> error option \<Rightarrow> 's \<Rightarrow> error option \<times> 's)
    \<Rightarrow> nat list \<Rightarrow> nat \<Rightarrow> (error option \<times> entity) list \<Rightarrow> 's \<Rightarrow> error option \<times> 's"
where
  "entity_Walk f path (Entity hdr bd mt ps) err s =
     (case f path (Entity hdr bd mt ps) err s of
        (Some er, s') \<Rightarrow> (Some er, s')
      | (None, s') \<Rightarrow>
          (if prefix ''multipart/'' mt then parts_Walk f path 0 ps s' else (None, s')))"
| "parts_Walk f path i [] s = (None, s)"
| "parts_Walk f path i (p # ps) s =
     (case entity_Walk f (path @ [i]) (snd p) (fst p) s of
        (Some er, s') \<Rightarrow> (Some er, s')
      | (None, s') \<Rightarrow> parts_Walk f path (Suc i) ps s')"

subsection \<open>The walker\<close>

text \<open>The test of the closure for a pure container, on a part as \<open>WithEntity\<close> fills it: a
  multipart content type with a non-empty \<open>boundary\<close> parameter.\<close>

definition container :: "MailPart \<Rightarrow> bool" where
  "container mp = (prefix ''multipart/'' (ContentType mp) \<and> param (MediaType mp) ''boundary'' \<noteq> [])"

text \<open>The closure that \<open>Walk\<close> passes to \<open>Entity.Walk\<close>.\<close>

definition walkFn ::
  "extern \<Rightarrow> MailPart \<Rightarrow> 'c TodoFunc \<Rightarrow> nat list \<Rightarrow> entity \<Rightarrow> error option \<Rightarrow> 'c world
    \<Rightarrow> error option \<times> 'c world" where
  "walkFn X part todo path e err w =
     (case err of
        Some er \<Rightarrow> (Some er, w)
      | None \<Rightarrow>
          (case Header_ContentType X (eHeader e) of (ct, params, cterr) \<Rightarrow>
             if path \<noteq> [] \<and> prefix ''multipart/'' ct \<and> param params ''boundary'' \<noteq> [] then (None, w)
             else
               (case Spawn part (sequence w) of (sp, sq) \<Rightarrow>
                  (case WithEntity X sp e (w\<lparr>sequence := sq\<rparr>) of
                     ((child, Some er), w1) \<Rightarrow> (Some er, w1)
                   | ((child, None), w1) \<Rightarrow>
                       (case FileName X child of
                          None \<Rightarrow> (Some ErrPanic, w1)
                        | Some fn0 \<Rightarrow>
                            (let fn = (if fn0 = []
                                       then itoa (Level child) @ ''.'' @ itoa (Seq child)
                                            @ hd (ExtensionsByType X (ContentType child) @ [''.dat''])
                                       else fn0);
                                 child' = set_Header child
                                            (MIMEHeader_Add (Header child) ''X-FileName'' (safeFn fn True))
                             in case todo child' (cb w1) of
                                  (Some er, c1) \<Rightarrow>
                                    (Some (ErrWrapped (TodoCtx fn) er),
                                     w1\<lparr>cb := c1, calls := calls w1 @ [(path, child')]\<rparr>)
                                | (None, c1) \<Rightarrow>
                                    (case todo child' c1 of (r, c2) \<Rightarrow>
                                       (r, w1\<lparr>cb := c2,
                                             calls := calls w1 @ [(path, child'), (path, child')]\<rparr>))))))))"

definition Walk :: "extern \<Rightarrow> MailPart \<Rightarrow> 'c TodoFunc \<Rightarrow> bool \<Rightarrow> 'c world \<Rightarrow> error option \<times> 'c world" where
  "Walk X part todo dontDescend w =
     (case entity part of
        None \<Rightarrow> (Some ErrPanic, w)
      | Some e \<Rightarrow> entity_Walk (walkFn X part todo) [] e None w)"

definition WalkMessage ::
  "extern \<Rightarrow> entity \<Rightarrow> 'c TodoFunc \<Rightarrow> bool \<Rightarrow> MailPart option \<Rightarrow> 'c world \<Rightarrow> error option \<times> 'c world" where
  "WalkMessage X msg todo dontDescend parent w =
     (case (case parent of
              Some p \<Rightarrow> Spawn p (sequence w)
            | None \<Rightarrow> (case nextSeqInt (sequence w) of
                         (v, sq) \<Rightarrow> (MailPart None None Map.empty Map.empty None [] 1 v, sq)))
      of (child, sq) \<Rightarrow>
        (case WithEntity X child msg (w\<lparr>sequence := sq\<rparr>) of
           ((child1, Some er), w1) \<Rightarrow> (Some er, w1)
         | ((child1, None), w1) \<Rightarrow> Walk X child1 todo dontDescend w1))"

definition WalkMultipart :: "extern \<Rightarrow> MailPart \<Rightarrow> 'c TodoFunc \<Rightarrow> bool \<Rightarrow> 'c world \<Rightarrow> error option \<times> 'c world" where
  "WalkMultipart X mp todo dontDescend w = Walk X mp todo dontDescend w"

subsection \<open>Example inputs\<close>

text \<open>
  Concrete values for the examples. The parser's accessors are given by what they return on
  the header values the examples use (any other value is reported as unparsable, as
  \<open>mime.ParseMediaType\<close> does with the raw value as the type); the digest is SHA-512/224 on
  the empty message and on \<open>hello\<close>.
\<close>

definition hello :: "byte list" where
  "hello = [104, 101, 108, 108, 111]"

definition sha512_224_hello :: "byte list" where
  "sha512_224_hello = [254, 133, 9, 237, 31, 183, 220, 239, 194, 126, 106, 193, 168, 14, 221, 190,
     196, 203, 61, 44, 111, 229, 101, 36, 67, 116, 6, 28]"

definition demo_digest :: "byte list \<Rightarrow> byte list" where
  "demo_digest d = (if d = hello then sha512_224_hello else sha512_224_empty)"

definition demo_ContentType :: "header \<Rightarrow> string \<times> (string \<rightharpoonup> string) \<times> error option" where
  "demo_ContentType h =
     (let v = Header_Get h ''Content-Type'' in
      if v = [] \<or> v = ''text/plain'' then (''text/plain'', Map.empty, None)
      else if v = ''multipart/mixed; boundary=b'' then (''multipart/mixed'', [''boundary'' \<mapsto> ''b''], None)
      else if v = ''multipart/mixed'' then (''multipart/mixed'', Map.empty, None)
      else (v, Map.empty, Some (ErrOther ''mime: invalid media parameter'')))"

definition demo_ContentDisposition :: "header \<Rightarrow> string \<times> (string \<rightharpoonup> string) \<times> error option" where
  "demo_ContentDisposition h =
     (let v = Header_Get h ''Content-Disposition'' in
      if v = ''attachment; filename=r.txt'' then (''attachment'', [''filename'' \<mapsto> ''r.txt''], None)
      else ([], Map.empty, Some (ErrOther ''mime: no media type'')))"

definition demo :: extern where
  "demo = \<lparr>Header_ContentType = demo_ContentType,
           Header_ContentDisposition = demo_ContentDisposition,
           decodeHeader = Some,
           ExtensionsByType = (\<lambda>t. if t = ''text/plain'' then [''.txt''] else []),
           sha512_224 = demo_digest\<rparr>"

definition ctField :: "string \<Rightarrow> headerField" where
  "ctField v = \<lparr>fKey = ''Content-Type'', fValue = v, fRaw = ''Content-Type: '' @ v\<rparr>"

text \<open>A message that is one text part with the body \<open>hello\<close>; a callback that always returns
  \<open>nil\<close> and one that always returns \<open>ErrStopWalk\<close>; a fresh process.\<close>

definition plainMsg :: entity where
  "plainMsg = message_New demo [ctField ''text/plain''] (Stream [hello] None) []"

definition todoNil :: "unit TodoFunc" where
  "todoNil mp c = (None, c)"

definition todoStop :: "unit TodoFunc" where
  "todoStop mp c = (Some ErrStopWalk, c)"

definition world0 :: "unit world" where
  "world0 = \<lparr>sequence = 0, readers = [], tempStorage = None, cb = (), calls = []\<rparr>"

section \<open>Properties\<close>

subsection \<open>Sequence numbers\<close>

lemma issue_Suc:
  "issue (Suc n) s = ((s + 1) mod 2 ^ 31 # fst (issue n (s + 1)), snd (issue n (s + 1)))"
  by (simp add: nextSeqInt_def nextSeq_def case_prod_beta)

lemma issue_length: "length (fst (issue n s)) = n"
  by (induction n arbitrary: s) (simp_all add: issue_Suc del: issue.simps(2))

lemma issue_nth: "i < n \<Longrightarrow> fst (issue n s) ! i = (s + 1 + of_nat i) mod 2 ^ 31"
proof (induction n arbitrary: s i)
  case 0
  then show ?case by simp
next
  case (Suc n)
  show ?case
  proof (cases i)
    case 0
    then show ?thesis by (simp add: issue_Suc del: issue.simps(2))
  next
    case (Suc j)
    with Suc.prems have "j < n" by simp
    from Suc.IH [OF this, of "s + 1"] Suc show ?thesis
      by (simp add: issue_Suc add.assoc del: issue.simps(2))
  qed
qed

lemma seq_val_unat:
  "unat ((s + 1 + of_nat i :: 64 word) mod 2 ^ 31) = (unat s + 1 + i) mod 2 ^ 31"
proof -
  have d: "(2::nat) ^ 31 dvd 2 ^ 64" by (simp add: le_imp_power_dvd)
  have "unat ((s + 1 + of_nat i :: 64 word) mod 2 ^ 31) = unat (s + 1 + of_nat i :: 64 word) mod 2 ^ 31"
    by (simp add: unat_mod)
  also have "unat (s + 1 + of_nat i :: 64 word) = (unat s + 1 + i) mod 2 ^ 64"
    by (simp add: unat_word_ariths unat_of_nat mod_simps)
  also have "(unat s + 1 + i) mod 2 ^ 64 mod 2 ^ 31 = (unat s + 1 + i) mod 2 ^ 31"
    using d by (rule mod_mod_cancel)
  finally show ?thesis .
qed

text \<open>
  C6 (as amended): sequence numbers are the counter modulo \<open>2 ^ 31\<close>, so they are pairwise
  distinct within any run of at most \<open>2 ^ 31\<close> successive assignments, from any counter value
  (also across the wrap-around of the 64-bit counter).
\<close>

theorem issue_distinct: "n \<le> 2 ^ 31 \<Longrightarrow> distinct (fst (issue n s))"
proof -
  assume n: "n \<le> 2 ^ 31"
  have "fst (issue n s) ! i \<noteq> fst (issue n s) ! j" if "i < j" "j < n" for i j
  proof
    assume eq: "fst (issue n s) ! i = fst (issue n s) ! j"
    from that have "i < n" by simp
    with eq that have "(s + 1 + of_nat i) mod 2 ^ 31 = (s + 1 + of_nat j :: 64 word) mod 2 ^ 31"
      by (simp add: issue_nth)
    then have "unat ((s + 1 + of_nat i) mod 2 ^ 31) = unat ((s + 1 + of_nat j :: 64 word) mod 2 ^ 31)"
      by simp
    then have "(unat s + 1 + i) mod 2 ^ 31 = (unat s + 1 + j) mod 2 ^ 31"
      by (simp only: seq_val_unat)
    then have "(2::nat) ^ 31 dvd (unat s + 1 + j) - (unat s + 1 + i)"
      by (metis mod_eq_dvd_iff_nat add_le_cancel_left less_imp_le_nat that(1))
    then have "(2::nat) ^ 31 dvd j - i" by simp
    moreover have "0 < j - i" "j - i < 2 ^ 31" using that n by simp_all
    ultimately show False by (meson dvd_imp_le not_le)
  qed
  then have "\<And>i j. i < n \<Longrightarrow> j < n \<Longrightarrow> i \<noteq> j \<Longrightarrow> fst (issue n s) ! i \<noteq> fst (issue n s) ! j"
    by (metis linorder_neqE_nat)
  then show ?thesis by (simp add: distinct_conv_nth issue_length)
qed

theorem issue_distinct_witness: "distinct (fst (issue 3 0)) \<and> fst (issue 3 0) = [1, 2, 3]"
  using issue_distinct [of 3 0] by (simp add: numeral_3_eq_3 nextSeqInt_def nextSeq_def)

text \<open>
  C6 as stated fails: starting from a fresh counter, the assignment number \<open>2 ^ 31 + 1\<close> hands
  out the sequence number 1 again.
\<close>

theorem issue_repeats: "\<not> distinct (fst (issue (2 ^ 31 + 1) 0))"
proof -
  have a: "fst (issue (2 ^ 31 + 1) 0) ! 0 = 1"
    by (subst issue_nth) simp_all
  have b: "fst (issue (2 ^ 31 + 1) 0) ! (2 ^ 31) = 1"
    by (subst issue_nth) simp_all
  show ?thesis
  proof
    assume "distinct (fst (issue (2 ^ 31 + 1) 0))"
    then have "(fst (issue (2 ^ 31 + 1) 0) ! 0 = fst (issue (2 ^ 31 + 1) 0) ! (2 ^ 31)) = ((0::nat) = 2 ^ 31)"
      by (rule nth_eq_iff_index_eq) (simp_all add: issue_length)
    with a b show False by simp
  qed
qed


subsection \<open>The filename sanitizer\<close>

declare Replace.simps [simp del]

lemma Replace_char:
  "Replace s [c] new = concat (map (\<lambda>x. if x = c then new else [x]) s)"
proof (induction s arbitrary: c)
  case Nil
  show ?case by (subst Replace.simps) simp
next
  case (Cons a s)
  show ?case by (subst Replace.simps) (auto simp: Cons.IH)
qed

lemma upperhex_nth_in: "k < 16 \<Longrightarrow> upperhex ! k \<in> set upperhex"
  by (rule nth_mem) (simp add: upperhex_def)

lemma of_char_div16: "(of_char c :: nat) div 16 < 16"
proof -
  have "(of_char c :: nat) mod 256 < 256" by (rule mod_less_divisor) simp
  then have "(of_char c :: nat) < 256" by simp
  then show ?thesis by arith
qed

lemma upperhex_no_percent: "k < 16 \<Longrightarrow> upperhex ! k \<noteq> CHR ''%''"
  using upperhex_nth_in [of k] by (auto simp: upperhex_def)

lemma upperhex_no_sep: "k < 16 \<Longrightarrow> upperhex ! k \<noteq> CHR ''/'' \<and> upperhex ! k \<noteq> CHR 0x5C"
  using upperhex_nth_in [of k] by (auto simp: upperhex_def)

lemma shouldEscape_special:
  "shouldEscape CHR ''%''" "shouldEscape CHR ''/''" "shouldEscape (CHR 0x5C)" "\<not> shouldEscape CHR ''-''"
  by (simp_all add: shouldEscape_def isAlnum_def)

lemma mask_escape:
  "mask_percent (escape_byte (if c = CHR ''/'' \<or> c = CHR 0x5C then CHR ''-'' else c)) = sanitize_char c"
  using shouldEscape_special upperhex_no_percent [OF of_char_div16, of c]
    upperhex_no_percent [of "of_char c mod 16"]
  by (auto simp: mask_percent_def escape_byte_def sanitize_char_def)

lemma safeFn_sanitize: "safeFn fn True = concat (map sanitize_char fn)"
proof -
  have 1: "Replace (Replace fn ''/'' ''-'') [CHR 0x5C] ''-''
      = map (\<lambda>c. if c = CHR ''/'' \<or> c = CHR 0x5C then CHR ''-'' else c) fn"
    by (induction fn) (simp_all add: Replace_char)
  have 2: "Replace (concat (map f xs)) ''%'' ''!P!'' = concat (map (\<lambda>x. mask_percent (f x)) xs)" for f :: "char \<Rightarrow> string" and xs
    by (induction xs) (simp_all add: Replace_char mask_percent_def)
  show ?thesis
    by (simp add: safeFn_def Let_def QueryEscape_def 1 2 comp_def mask_escape)
qed

lemma sanitize_char_safe:
  "CHR ''/'' \<notin> set (sanitize_char c) \<and> CHR 0x5C \<notin> set (sanitize_char c) \<and> CHR ''%'' \<notin> set (sanitize_char c)"
  using shouldEscape_special upperhex_no_percent [OF of_char_div16, of c]
    upperhex_no_percent [of "of_char c mod 16"]
    upperhex_no_sep [OF of_char_div16, of c] upperhex_no_sep [of "of_char c mod 16"]
  by (auto simp: sanitize_char_def)

text \<open>
  C8: with \<open>maskPercent\<close> set, the sanitized name holds no slash, no backslash and no percent
  sign, for every input; it is the input with each path separator replaced by \<open>-\<close> and every
  other character percent-encoded with \<open>!P!\<close> in place of the \<open>%\<close>. (\<open>safeFn\<close> is a total
  function: \<open>Replace\<close> terminates on every input.)
\<close>

theorem safeFn_masked:
  "CHR ''/'' \<notin> set (safeFn fn True) \<and> CHR 0x5C \<notin> set (safeFn fn True)
   \<and> CHR ''%'' \<notin> set (safeFn fn True)
   \<and> safeFn fn True = concat (map sanitize_char fn)"
  using sanitize_char_safe by (auto simp: safeFn_sanitize)

theorem safeFn_masked_witness:
  "safeFn [CHR ''a'', CHR ''/'', CHR ''b'', CHR 0x5C, CHR ''c''] True = ''a-b-c''
   \<and> CHR ''/'' \<notin> set (safeFn [CHR ''a'', CHR ''/'', CHR ''b'', CHR 0x5C, CHR ''c''] True)
   \<and> CHR 0x5C \<notin> set (safeFn [CHR ''a'', CHR ''/'', CHR ''b'', CHR 0x5C, CHR ''c''] True)
   \<and> CHR ''%'' \<notin> set (safeFn [CHR ''a'', CHR ''/'', CHR ''b'', CHR 0x5C, CHR ''c''] True)"
  using safeFn_masked [of "[CHR ''a'', CHR ''/'', CHR ''b'', CHR 0x5C, CHR ''c'']"]
  by (simp add: sanitize_char_def shouldEscape_def isAlnum_def)

subsection \<open>Header projection\<close>

lemma headersAsMap_fold:
  "foldl (\<lambda>m f. m(CanonicalMIMEHeaderKey (fKey f) \<mapsto>
             (case m (CanonicalMIMEHeaderKey (fKey f)) of None \<Rightarrow> [] | Some vs \<Rightarrow> vs) @ [field_text dec f])) m hs k
   = (if filter (\<lambda>f. CanonicalMIMEHeaderKey (fKey f) = k) hs = [] then m k
      else Some ((case m k of None \<Rightarrow> [] | Some v \<Rightarrow> v)
                 @ map (field_text dec) (filter (\<lambda>f. CanonicalMIMEHeaderKey (fKey f) = k) hs)))"
  by (induction hs arbitrary: m) auto

lemma headersAsMap_lookup:
  "headersAsMap dec hs k
   = (let vs = map (field_text dec) (filter (\<lambda>f. CanonicalMIMEHeaderKey (fKey f) = k) hs)
      in if vs = [] then None else Some vs)"
  unfolding headersAsMap_def Let_def by (simp add: headersAsMap_fold)

lemma canonical_examples:
  "CanonicalMIMEHeaderKey ''From'' = ''From''"
  "CanonicalMIMEHeaderKey ''To'' = ''To''"
  "CanonicalMIMEHeaderKey ''received'' = ''Received''"
  "CanonicalMIMEHeaderKey ''Received'' = ''Received''"
  "CanonicalMIMEHeaderKey ''SUBJECT'' = ''Subject''"
  by code_simp+

text \<open>
  C7 (as amended): the projection is a Go map from canonical keys to value lists. Under each
  canonical key it holds the texts of the fields with that key, duplicates kept, in the order
  of the header; a key without a field is absent. The order between fields of different
  keys is not part of the result.
\<close>

theorem headersAsMap_per_key:
  "headersAsMap dec hs k
   = (let vs = map (field_text dec) (filter (\<lambda>f. CanonicalMIMEHeaderKey (fKey f) = k) hs)
      in if vs = [] then None else Some vs)"
  by (rule headersAsMap_lookup)

theorem headersAsMap_per_key_witness:
  "headersAsMap Some
     [\<lparr>fKey = ''received'', fValue = ''a'', fRaw = []\<rparr>,
      \<lparr>fKey = ''SUBJECT'', fValue = ''s'', fRaw = []\<rparr>,
      \<lparr>fKey = ''Received'', fValue = ''b'', fRaw = []\<rparr>] ''Received'' = Some [''a'', ''b'']"
  using headersAsMap_per_key [of Some
     "[\<lparr>fKey = ''received'', fValue = ''a'', fRaw = []\<rparr>,
      \<lparr>fKey = ''SUBJECT'', fValue = ''s'', fRaw = []\<rparr>,
      \<lparr>fKey = ''Received'', fValue = ''b'', fRaw = []\<rparr>]" "''Received''"]
  by (simp add: canonical_examples field_text_def)

text \<open>
  C7 as stated fails: the headers \<open>From: a, To: b\<close> and \<open>To: b, From: a\<close> differ in the order of
  their fields and have the same projection, so the projection does not keep that order.
\<close>

theorem headersAsMap_order_lost:
  "[\<lparr>fKey = ''From'', fValue = ''a'', fRaw = []\<rparr>, \<lparr>fKey = ''To'', fValue = ''b'', fRaw = []\<rparr>]
     \<noteq> [\<lparr>fKey = ''To'', fValue = ''b'', fRaw = []\<rparr>, \<lparr>fKey = ''From'', fValue = ''a'', fRaw = []\<rparr>]
   \<and> headersAsMap Some [\<lparr>fKey = ''From'', fValue = ''a'', fRaw = []\<rparr>, \<lparr>fKey = ''To'', fValue = ''b'', fRaw = []\<rparr>]
     = headersAsMap Some [\<lparr>fKey = ''To'', fValue = ''b'', fRaw = []\<rparr>, \<lparr>fKey = ''From'', fValue = ''a'', fRaw = []\<rparr>]"
proof -
  have "headersAsMap Some [\<lparr>fKey = ''From'', fValue = ''a'', fRaw = []\<rparr>, \<lparr>fKey = ''To'', fValue = ''b'', fRaw = []\<rparr>] k
     = headersAsMap Some [\<lparr>fKey = ''To'', fValue = ''b'', fRaw = []\<rparr>, \<lparr>fKey = ''From'', fValue = ''a'', fRaw = []\<rparr>] k" for k
    by (auto simp: headersAsMap_lookup Let_def canonical_examples)
  then show ?thesis by auto
qed

subsection \<open>Hashing\<close>

lemma EncodeToString_length: "length (EncodeToString bs) = 4 * ((length bs + 2) div 3)"
proof (induction bs rule: EncodeToString.induct)
  case (1 a b c rest)
  have "(length rest + 3 + 2) div 3 = Suc ((length rest + 2) div 3)" by arith
  with 1 show ?case by (simp add: Let_def)
qed (simp_all add: Let_def)

lemma EncodeToString_pad:
  "length bs mod 3 = 1 \<Longrightarrow> drop (length (EncodeToString bs) - 2) (EncodeToString bs) = ''==''"
proof (induction bs rule: EncodeToString.induct)
  case (1 a b c rest)
  from "1.prems" have m: "length rest mod 3 = 1" by (simp add: mod_Suc split: if_splits)
  then have "1 \<le> length rest" by (cases rest) simp_all
  then have "1 \<le> (length rest + 2) div 3" by arith
  then have "2 \<le> length (EncodeToString rest)"
    by (simp add: EncodeToString_length)
  then obtain k where k: "length (EncodeToString rest) = k + 2"
    by (metis add.commute le_Suc_ex)
  from "1.IH" [OF refl m] k show ?case by (simp add: Let_def)
qed (simp_all add: Let_def)

lemma encodeURL_nth: "k < 64 \<Longrightarrow> encodeURL ! k \<in> set encodeURL"
  by (rule nth_mem) (simp add: encodeURL_def)

lemma EncodeToString_alphabet: "set (EncodeToString bs) \<subseteq> insert CHR ''='' (set encodeURL)"
  by (induction bs rule: EncodeToString.induct) (simp_all add: Let_def encodeURL_nth)

lemma hash_Write_chunks:
  "foldl hash_Write h cs = h\<lparr>absorbed := absorbed h @ concat cs\<rparr>"
  by (induction cs arbitrary: h) (simp_all add: hash_Write_def)

lemma HashBytes_eq: "HashBytes digest data = EncodeToString (digest data)"
  by (simp add: HashBytes_def hash_Sum_def hash_Write_def New512_224_def)

lemma hash_stream:
  "EncodeToString (hash_Sum digest (foldl hash_Write New512_224 cs) []) = HashBytes digest (concat cs)"
  by (simp add: HashBytes_eq hash_Write_chunks hash_Sum_def New512_224_def)

text \<open>
  C4 (as amended): for a digest of 28 bytes (224 bits), as SHA-512/224 gives, \<open>HashBytes\<close> is the
  padded URL-safe base64 text of the digest of the data: 40 characters of the URL-safe
  alphabet of which the last two are the padding \<open>==\<close>. It depends on the bytes alone, and
  the hash that \<open>WithEntity\<close> feeds chunk by chunk through the tee reader ends with the same
  text as \<open>HashBytes\<close> of the whole body.
\<close>

theorem HashBytes_padded:
  assumes "length (digest data) = 28" and "concat cs = data"
  shows "HashBytes digest data = EncodeToString (digest data)
    \<and> length (HashBytes digest data) = 40
    \<and> drop 38 (HashBytes digest data) = ''==''
    \<and> set (HashBytes digest data) \<subseteq> insert CHR ''='' (set encodeURL)
    \<and> EncodeToString (hash_Sum digest (foldl hash_Write New512_224 cs) []) = HashBytes digest data"
  using assms EncodeToString_pad [of "digest data"] EncodeToString_alphabet [of "digest data"]
  by (simp add: hash_stream) (simp add: HashBytes_eq EncodeToString_length)

lemma demo_digest_length: "length (demo_digest d) = 28"
  by (simp add: demo_digest_def sha512_224_hello_def sha512_224_empty_def)

theorem HashBytes_padded_witness:
  "HashBytes demo_digest hello = EncodeToString (demo_digest hello)
    \<and> length (HashBytes demo_digest hello) = 40
    \<and> drop 38 (HashBytes demo_digest hello) = ''==''
    \<and> set (HashBytes demo_digest hello) \<subseteq> insert CHR ''='' (set encodeURL)
    \<and> EncodeToString (hash_Sum demo_digest (foldl hash_Write New512_224 [[104, 101], [108, 108, 111]]) [])
        = HashBytes demo_digest hello"
  by (rule HashBytes_padded) (simp_all add: demo_digest_length hello_def)

text \<open>
  C4 as stated fails on the padding: the hash of the empty byte sequence is rendered with
  two padding characters.
\<close>

theorem HashBytes_has_padding:
  "HashBytes demo_digest [] = ''btDdAoBvqJ4l3gYMGdOshsq7h9ag3dBcMzuE9A==''"
  by (simp add: HashBytes_eq demo_digest_def hello_def sha512_224_empty_def encodeURL_def)

end
